theory Spec2Isabelle
  imports Main "HOL-Library.Word" "HOL-Library.Code_Target_Nat"
begin

unbundle bit_operations_syntax

section \<open>Go values shared by both controllers\<close>

subsection \<open>Errors\<close>

text \<open>
  A Go \<open>error\<close> value. \<open>NotFound\<close> is the object store's not-found error
  (\<open>apierrors.IsNotFound\<close>), \<open>LinkNotFound\<close> is \<open>netlink.LinkNotFoundError\<close>,
  \<open>Failure\<close> is any other error with its message, and \<open>Wrapped msg e\<close> is
  \<open>fmt.Errorf\<close> with a \<open>%w\<close> verb: the formatted message and the wrapped cause.
  A nil error is \<open>None\<close> of \<open>error option\<close>.
\<close>

datatype error =
    NotFound string
  | LinkNotFound string
  | Failure string
  | Wrapped string error

fun Error :: "error \<Rightarrow> string" where
  "Error (NotFound m) = m"
| "Error (LinkNotFound m) = m"
| "Error (Failure m) = m"
| "Error (Wrapped m e) = m"

fun IsNotFound :: "error \<Rightarrow> bool" where
  "IsNotFound (NotFound m) = True"
| "IsNotFound e = False"

text \<open>\<open>errors.As(err, &netlink.LinkNotFoundError{})\<close> looks through wrapping.\<close>

fun IsLinkNotFound :: "error \<Rightarrow> bool" where
  "IsLinkNotFound (LinkNotFound m) = True"
| "IsLinkNotFound (Wrapped m e) = IsLinkNotFound e"
| "IsLinkNotFound e = False"

text \<open>The \<open>%v\<close> verb on an error that may be nil.\<close>

definition fmt_error :: "error option \<Rightarrow> string" where
  "fmt_error e = (case e of None \<Rightarrow> ''<nil>'' | Some x \<Rightarrow> Error x)"

subsection \<open>Maps of strings\<close>

text \<open>
  A Go \<open>map[string]string\<close>: \<open>None\<close> is the nil map, \<open>Some m\<close> an allocated
  one. Reading a missing key, or any key of the nil map, gives the empty string.
\<close>

type_synonym gomap = "(string \<rightharpoonup> string) option"

definition lookup :: "gomap \<Rightarrow> string \<Rightarrow> string" where
  "lookup m k = (case m of None \<Rightarrow> '''' | Some f \<Rightarrow> (case f k of None \<Rightarrow> '''' | Some v \<Rightarrow> v))"

text \<open>\<open>if m == nil { m = make(map[string]string) }\<close>\<close>

definition make_if_nil :: "gomap \<Rightarrow> (string \<rightharpoonup> string)" where
  "make_if_nil m = (case m of None \<Rightarrow> Map.empty | Some f \<Rightarrow> f)"

text \<open>\<open>delete(m, k)\<close>: a no-op on the nil map.\<close>

definition delete_key :: "gomap \<Rightarrow> string \<Rightarrow> gomap" where
  "delete_key m k = (case m of None \<Rightarrow> None | Some f \<Rightarrow> Some (f(k := None)))"

text \<open>The test \<open>p == nil\<close> of a pointer or a map.\<close>

definition is_nil :: "'a option \<Rightarrow> bool" where
  "is_nil p = (case p of None \<Rightarrow> True | Some x \<Rightarrow> False)"

subsection \<open>Formatting and parsing integers\<close>

text \<open>\<open>fmt.Sprintf("%v", n)\<close> for an \<open>int\<close>: decimal digits, a minus sign when negative.\<close>

definition digit_char :: "nat \<Rightarrow> char" where
  "digit_char d = ''0123456789abcdef'' ! d"

fun string_of_nat :: "nat \<Rightarrow> string" where
  "string_of_nat n =
     (if n < 10 then [digit_char n] else string_of_nat (n div 10) @ [digit_char (n mod 10)])"

declare string_of_nat.simps [simp del]

definition Sprintf_v :: "int \<Rightarrow> string" where
  "Sprintf_v n = (if n < 0 then CHR ''-'' # string_of_nat (nat (- n)) else string_of_nat (nat n))"

text \<open>
  \<open>strconv.Atoi\<close> on a 64-bit platform: an optional sign, then one or more decimal
  digits and nothing else; a value outside the \<open>int\<close> range is an error. The message
  of the error quotes the input; the escapes \<open>strconv.Quote\<close> would add to an input
  with unprintable characters are not written out.
\<close>

definition Quote :: "string \<Rightarrow> string" where
  "Quote s = CHR 0x22 # s @ [CHR 0x22]"

definition is_digit :: "char \<Rightarrow> bool" where
  "is_digit c \<longleftrightarrow> c \<in> set ''0123456789''"

definition digit_val :: "char \<Rightarrow> nat" where
  "digit_val c = of_char c - 48"

definition Atoi :: "string \<Rightarrow> error + int" where
  "Atoi s =
     (let neg = (s \<noteq> [] \<and> hd s = CHR ''-'');
          body = (if s \<noteq> [] \<and> (hd s = CHR ''+'' \<or> hd s = CHR ''-'') then tl s else s)
      in if body = [] \<or> \<not> list_all is_digit body
         then Inl (Failure (''strconv.Atoi: parsing '' @ Quote s @ '': invalid syntax''))
         else
           let n = int (foldl (\<lambda>a c. 10 * a + digit_val c) 0 body);
               v = (if neg then - n else n)
           in if v < - (2 ^ 63) \<or> 2 ^ 63 - 1 < v
              then Inl (Failure (''strconv.Atoi: parsing '' @ Quote s @ '': value out of range''))
              else Inr v)"

section \<open>Package utils: MTU helpers (pkg/utils/mtu.go)\<close>

text \<open>
  Modelled from the spec: the constants \<open>MinMTU\<close>, \<open>MaxMTU\<close> and \<open>DefaultMTU\<close>
  are declared in a file of package utils that is not part of the sources at hand. The
  spec gives the range 576..9000 and the default 1500, and the package's own tests parse
  "576", "9000" and "1500" to them.
\<close>

definition MinMTU :: int where "MinMTU = 576"
definition MaxMTU :: int where "MaxMTU = 9000"
definition DefaultMTU :: int where "DefaultMTU = 1500"

definition IsValidMTU :: "int \<Rightarrow> bool" where
  "IsValidMTU MTU \<longleftrightarrow> MTU = 0 \<or> (MTU \<ge> MinMTU \<and> MTU \<le> MaxMTU)"

definition IsDefaultMTU :: "int \<Rightarrow> bool" where
  "IsDefaultMTU MTU \<longleftrightarrow> MTU = DefaultMTU"

definition AreEqualMTUs :: "int \<Rightarrow> int \<Rightarrow> bool" where
  "AreEqualMTUs MTU1 MTU2 \<longleftrightarrow>
     (MTU1 = MTU2) \<or> (MTU1 = 0 \<and> MTU2 = DefaultMTU) \<or> (MTU1 = DefaultMTU \<and> MTU2 = 0)"

definition GetMTUFromString :: "string \<Rightarrow> error + int" where
  "GetMTUFromString s =
     (case Atoi s of
        Inl err \<Rightarrow> Inl (Wrapped (''value '' @ s @ '' is not an integer: '' @ Error err) err)
      | Inr MTU \<Rightarrow>
          if \<not> IsValidMTU MTU
          then Inl (Failure (''value '' @ s @ '' is not in range [0, '' @ Sprintf_v MinMTU
                              @ ''..'' @ Sprintf_v MaxMTU @ '']''))
          else Inr MTU)"

definition MTUDefaultTo :: "int \<Rightarrow> int" where
  "MTUDefaultTo MTU = (if MTU = 0 then DefaultMTU else MTU)"

section \<open>The objects of the store\<close>

text \<open>
  Modelled from the spec: the condition helper \<open>networkv1.Ready\<close> (its \<open>IsTrue\<close>,
  \<open>IsFalse\<close>, \<open>True\<close>, \<open>False\<close>, \<open>SetStatusBool\<close> and \<open>Message\<close>) belongs to the
  API package, which is not part of the sources at hand. The spec describes Ready as a
  single boolean-style condition with an optional message. An object that has no Ready
  condition yet is \<open>None\<close>; a setter creates the condition before writing to it.
  Timestamps of a condition are left out.
\<close>

record Condition =
  Status :: string
  Message :: string

definition find_or_create :: "Condition option \<Rightarrow> Condition" where
  "find_or_create c = (case c of None \<Rightarrow> \<lparr>Status = ''Unknown'', Message = ''''\<rparr> | Some x \<Rightarrow> x)"

definition Ready_IsTrue :: "Condition option \<Rightarrow> bool" where
  "Ready_IsTrue c \<longleftrightarrow> (case c of None \<Rightarrow> False | Some x \<Rightarrow> Status x = ''True'')"

definition Ready_IsFalse :: "Condition option \<Rightarrow> bool" where
  "Ready_IsFalse c \<longleftrightarrow> (case c of None \<Rightarrow> False | Some x \<Rightarrow> Status x = ''False'')"

definition Ready_SetStatusBool :: "Condition option \<Rightarrow> bool \<Rightarrow> Condition option" where
  "Ready_SetStatusBool c b = Some ((find_or_create c)\<lparr>Status := (if b then ''True'' else ''False'')\<rparr>)"

definition Ready_True :: "Condition option \<Rightarrow> Condition option" where
  "Ready_True c = Some ((find_or_create c)\<lparr>Status := ''True''\<rparr>)"

definition Ready_False :: "Condition option \<Rightarrow> Condition option" where
  "Ready_False c = Some ((find_or_create c)\<lparr>Status := ''False''\<rparr>)"

definition Ready_Message :: "Condition option \<Rightarrow> string \<Rightarrow> Condition option" where
  "Ready_Message c m = Some ((find_or_create c)\<lparr>Message := m\<rparr>)"

text \<open>
  The configuration object (\<open>VlanConfig\<close>). \<open>vc_DeletionTimestamp\<close> is the deletion
  marker, \<open>vc_LinkAttrs\<close> and \<open>vc_BondOptions\<close> are the two optional parts of
  \<open>Spec.Uplink\<close>.
\<close>

record LinkAttrs =
  MTU :: int
  TxQLen :: int
  HardwareAddr :: "string option"

record BondOptions =
  Mode :: string
  Miimon :: int

record VlanConfig =
  vc_Name :: string
  vc_APIVersion :: string
  vc_Kind :: string
  vc_UID :: string
  vc_Labels :: gomap
  vc_Annotations :: gomap
  vc_DeletionTimestamp :: "string option"
  vc_ClusterNetwork :: string
  vc_NICs :: "string list"
  vc_LinkAttrs :: "LinkAttrs option"
  vc_BondOptions :: "BondOptions option"

text \<open>The cluster network object: its annotations and its Ready condition.\<close>

record ClusterNetwork =
  cn_Name :: string
  cn_Annotations :: gomap
  cn_Ready :: "Condition option"

text \<open>The per-node status object (\<open>VlanStatus\<close>).\<close>

record OwnerReference =
  or_APIVersion :: string
  or_Kind :: string
  or_Name :: string
  or_UID :: string

record LocalArea =
  VID :: int
  CIDR :: string

record LinkStatus =
  ls_Name :: string
  ls_Index :: int
  ls_Type :: string
  ls_MAC :: string
  ls_Promiscuous :: bool
  ls_State :: string
  ls_MasterIndex :: int

record VlanStatus =
  vs_Name :: string
  vs_Labels :: gomap
  vs_OwnerReferences :: "OwnerReference list"
  vs_DeletionTimestamp :: "string option"
  vs_ClusterNetwork :: string
  vs_VlanConfig :: string
  vs_Node :: string
  vs_Ready :: "Condition option"
  vs_LocalAreas :: "LocalArea list"
  vs_LinkStatus :: "LinkStatus list"

text \<open>The node object, of which the controllers read and write the labels only.\<close>

record Node =
  node_Name :: string
  node_Labels :: gomap

text \<open>
  The string constants of package utils and the group name of the API. Their
  declarations are not part of the sources at hand, so every function below takes them
  as a parameter.
\<close>

record utils_consts =
  KeyMatchedNodes :: string
  KeyVlanConfigLabel :: string
  KeyClusterNetworkLabel :: string
  KeyNodeLabel :: string
  KeyUplinkMTU :: string
  KeyMTUSourceVlanConfig :: string
  ValueTrue :: string
  GroupName :: string

definition GetMTUFromVlanConfig :: "VlanConfig option \<Rightarrow> int" where
  "GetMTUFromVlanConfig vc =
     (case vc of
        None \<Rightarrow> 0
      | Some c \<Rightarrow> (case vc_LinkAttrs c of None \<Rightarrow> 0 | Some la \<Rightarrow> MTU la))"


section \<open>Devices and other collaborators outside the controllers\<close>

text \<open>
  The packages \<open>vlan\<close>, \<open>iface\<close>, \<open>nad\<close>, \<open>netlink\<close> and \<open>encoding/json\<close> are
  used by the node agent and are not part of the sources at hand. What the agent reads
  from them is a parameter (\<open>extern\<close>), and each call that changes a device is
  recorded as an \<open>action\<close>.
\<close>

record nl_LinkAttrs =
  la_Name :: string
  la_MTU :: int
  la_TxQLen :: int
  la_HardwareAddr :: "string option"

record Bond =
  bond_LinkAttrs :: nl_LinkAttrs
  bond_Mode :: int
  bond_Miimon :: int

record Link =
  link_Name :: string
  link_Index :: int
  link_Type :: string
  link_HardwareAddr :: string
  link_Promisc :: int
  link_OperState :: string
  link_MasterIndex :: int

record vlan_LocalArea =
  Vid :: int
  Cidr :: string

record Vlan =
  ListLocalArea :: "vlan_LocalArea list"
  Bridge :: Link
  Uplink :: Link

record NetConf =
  nc_Type :: string
  nc_BrName :: string
  nc_Vlan :: int

record NAD =
  nad_Name :: string
  nad_Namespace :: string
  nad_Config :: string

record extern =
  json_Unmarshal_strings :: "string \<Rightarrow> error + string list"
  json_Unmarshal_NetConf :: "string \<Rightarrow> error + NetConf"
  nad_GetLocalArea :: "NAD \<Rightarrow> error + vlan_LocalArea"
  vlan_GetVlan :: "string \<Rightarrow> error + Vlan"
  vlan_Teardown :: "Vlan \<Rightarrow> error option"
  vlan_Setup :: "string \<Rightarrow> vlan_LocalArea list \<Rightarrow> Bond \<times> string list \<Rightarrow> error + Vlan"
  iface_EnsureBond :: "Bond \<times> string list \<Rightarrow> error option"
  iface_GenerateName :: "string \<Rightarrow> string \<Rightarrow> string"
  iface_BridgeSuffix :: string
  iface_BondSuffix :: string
  netlink_NewLinkAttrs :: nl_LinkAttrs
  netlink_NewLinkBond :: "nl_LinkAttrs \<Rightarrow> Bond"
  netlink_StringToBondMode :: "string \<Rightarrow> int"
  netlink_BOND_MODE_ACTIVE_BACKUP :: int

text \<open>
  Every call that writes to the object store or changes a device, in the order the
  handler makes it. A call is recorded whether or not it then fails.
\<close>

datatype action =
    EnsureBond "Bond \<times> string list"
  | VlanSetup string "vlan_LocalArea list" "Bond \<times> string list"
  | VlanTeardown Vlan
  | NodeUpdate Node
  | VsCreate VlanStatus
  | VsUpdate VlanStatus
  | VsDelete string
  | CnCreate ClusterNetwork
  | CnUpdate ClusterNetwork

fun is_device_action :: "action \<Rightarrow> bool" where
  "is_device_action (EnsureBond b) = True"
| "is_device_action (VlanSetup n las b) = True"
| "is_device_action (VlanTeardown v) = True"
| "is_device_action a = False"

section \<open>The manager's controller: MTU source election and readiness\<close>

text \<open>
  The handler of the management plane. A cache is what its \<open>Get\<close> or \<open>List\<close>
  answers (\<open>List\<close> takes the label selector as a key and a value), a client is what
  each write answers. A handler returns the writes it made and its Go results.
\<close>

record ManagerHandler =
  m_cnClient_Create :: "ClusterNetwork \<Rightarrow> error option"
  m_cnClient_Update :: "ClusterNetwork \<Rightarrow> error option"
  m_cnCache_Get :: "string \<Rightarrow> error + ClusterNetwork"
  m_vsCache_List :: "string \<times> string \<Rightarrow> error + VlanStatus list"
  m_vcCache_List :: "string \<times> string \<Rightarrow> error + VlanConfig list"

text \<open>
  \<open>ensureClusterNetwork\<close> after its first statement: \<open>curCn\<close> is the cluster network
  read from the cache, \<open>None\<close> when the cache answered not-found.
\<close>

definition ensureClusterNetwork_found ::
  "utils_consts \<Rightarrow> ManagerHandler \<Rightarrow> VlanConfig \<Rightarrow> ClusterNetwork option \<Rightarrow> action list \<times> error option"
where
  "ensureClusterNetwork_found K h vc curCn =
     (let name = vc_ClusterNetwork vc;
          vcMtu = GetMTUFromVlanConfig (Some vc);
          MTU = (if IsValidMTU vcMtu \<and> vcMtu \<noteq> 0 then vcMtu else DefaultMTU);
          targetMTU = Sprintf_v MTU
      in case curCn of
           Some cur \<Rightarrow>
             let curMTU = lookup (cn_Annotations cur) (KeyUplinkMTU K)
             in if curMTU = targetMTU then ([], None)
                else
                  let cnCopy = cur\<lparr>cn_Annotations :=
                        Some ((make_if_nil (cn_Annotations cur))
                                (KeyUplinkMTU K \<mapsto> targetMTU,
                                 KeyMTUSourceVlanConfig K \<mapsto> vc_Name vc))\<rparr>
                  in (case m_cnClient_Update h cnCopy of
                        Some err \<Rightarrow>
                          ([CnUpdate cnCopy],
                           Some (Wrapped (''failed to update cluster network '' @ name
                                  @ '' annotation '' @ KeyUplinkMTU K @ '' with MTU ''
                                  @ targetMTU @ '': '' @ Error err) err))
                      | None \<Rightarrow> ([CnUpdate cnCopy], None))
         | None \<Rightarrow>
             let cn = \<lparr>cn_Name = name,
                       cn_Annotations =
                         Some [KeyUplinkMTU K \<mapsto> targetMTU,
                               KeyMTUSourceVlanConfig K \<mapsto> vc_Name vc],
                       cn_Ready = None\<rparr>
             in (case m_cnClient_Create h cn of
                   Some err \<Rightarrow> ([CnCreate cn], Some err)
                 | None \<Rightarrow> ([CnCreate cn], None)))"

definition ensureClusterNetwork ::
  "utils_consts \<Rightarrow> ManagerHandler \<Rightarrow> VlanConfig \<Rightarrow> action list \<times> error option"
where
  "ensureClusterNetwork K h vc =
     (case m_cnCache_Get h (vc_ClusterNetwork vc) of
        Inl err \<Rightarrow>
          if \<not> IsNotFound err then ([], Some err)
          else ensureClusterNetwork_found K h vc None
      | Inr curCn \<Rightarrow> ensureClusterNetwork_found K h vc (Some curCn))"

definition EnsureClusterNetwork ::
  "utils_consts \<Rightarrow> ManagerHandler \<Rightarrow> VlanConfig option
     \<Rightarrow> action list \<times> VlanConfig option \<times> error option"
where
  "EnsureClusterNetwork K h vc =
     (case vc of
        None \<Rightarrow> ([], None, None)
      | Some c \<Rightarrow>
          if vc_DeletionTimestamp c \<noteq> None then ([], None, None)
          else (case ensureClusterNetwork K h c of
                  (ws, Some err) \<Rightarrow> (ws, None, Some err)
                | (ws, None) \<Rightarrow> (ws, Some c, None)))"

definition setClusterNetworkReady ::
  "ManagerHandler \<Rightarrow> VlanStatus \<Rightarrow> action list \<times> error option"
where
  "setClusterNetworkReady h vs =
     (case m_cnCache_Get h (vs_ClusterNetwork vs) of
        Inl err \<Rightarrow> ([], Some err)
      | Inr cn \<Rightarrow>
          if Ready_IsTrue (cn_Ready cn) then ([], None)
          else
            let cnCopy = cn\<lparr>cn_Ready := Ready_True (cn_Ready cn)\<rparr>
            in (case m_cnClient_Update h cnCopy of
                  Some err \<Rightarrow> ([CnUpdate cnCopy], Some err)
                | None \<Rightarrow> ([CnUpdate cnCopy], None)))"

definition SetClusterNetworkReady ::
  "ManagerHandler \<Rightarrow> VlanStatus option \<Rightarrow> action list \<times> VlanStatus option \<times> error option"
where
  "SetClusterNetworkReady h vs =
     (case vs of
        None \<Rightarrow> ([], None, None)
      | Some s \<Rightarrow>
          if vs_DeletionTimestamp s \<noteq> None then ([], None, None)
          else (case setClusterNetworkReady h s of
                  (ws, Some err) \<Rightarrow>
                    (ws, None,
                     Some (Wrapped (''set cluster network of vs '' @ vs_Name s
                            @ '' ready failed, error: '' @ Error err) err))
                | (ws, None) \<Rightarrow> (ws, Some s, None)))"

definition setClusterNetworkUnready ::
  "utils_consts \<Rightarrow> ManagerHandler \<Rightarrow> VlanStatus \<Rightarrow> action list \<times> error option"
where
  "setClusterNetworkUnready K h vs =
     (case m_vsCache_List h (KeyClusterNetworkLabel K, vs_ClusterNetwork vs) of
        Inl err \<Rightarrow> ([], Some err)
      | Inr vsList \<Rightarrow>
          if length vsList > 1 then ([], None)
          else if length vsList = 1 \<and> vs_Name (vsList ! 0) \<noteq> vs_Name vs
          then ([], Some (Failure (''the only remain vlanstatus '' @ vs_Name (vsList ! 0)
                                    @ '' is not '' @ vs_Name vs)))
          else
            (case m_cnCache_Get h (vs_ClusterNetwork vs) of
               Inl err \<Rightarrow> ([], Some err)
             | Inr cn \<Rightarrow>
                 if Ready_IsFalse (cn_Ready cn) then ([], None)
                 else
                   let cnCopy = cn\<lparr>cn_Ready := Ready_False (cn_Ready cn)\<rparr>
                   in (case m_cnClient_Update h cnCopy of
                         Some err \<Rightarrow> ([CnUpdate cnCopy], Some err)
                       | None \<Rightarrow> ([CnUpdate cnCopy], None))))"

definition SetClusterNetworkUnready ::
  "utils_consts \<Rightarrow> ManagerHandler \<Rightarrow> VlanStatus option
     \<Rightarrow> action list \<times> VlanStatus option \<times> error option"
where
  "SetClusterNetworkUnready K h vs =
     (case vs of
        None \<Rightarrow> ([], None, None)
      | Some s \<Rightarrow>
          (case setClusterNetworkUnready K h s of
             (ws, Some err) \<Rightarrow>
               (ws, None,
                Some (Wrapped (''set cluster network unready before deleting vs '' @ vs_Name s
                       @ '' failed, error: '' @ Error err) err))
           | (ws, None) \<Rightarrow> (ws, Some s, None)))"

text \<open>
  The loop of \<open>OnVlanConfigRemove\<close> over the listed configuration objects (a cache
  lists no nil object). The third argument is \<open>vcCandidateZero\<close> so far; the result is
  the pair (\<open>vcCandidate\<close>, \<open>vcCandidateZero\<close>) at the end of the loop.
\<close>

fun find_candidate ::
  "VlanConfig \<Rightarrow> VlanConfig list \<Rightarrow> VlanConfig option \<Rightarrow> VlanConfig option \<times> VlanConfig option"
where
  "find_candidate vc [] vcCandidateZero = (None, vcCandidateZero)"
| "find_candidate vc (item # rest) vcCandidateZero =
     (if vc_Name item = vc_Name vc \<or> vc_DeletionTimestamp item \<noteq> None
      then find_candidate vc rest vcCandidateZero
      else
        let mtu = GetMTUFromVlanConfig (Some item)
        in if \<not> IsValidMTU mtu then find_candidate vc rest vcCandidateZero
           else if mtu = 0
           then (if is_nil vcCandidateZero then find_candidate vc rest (Some item)
                 else find_candidate vc rest vcCandidateZero)
           else (Some item, vcCandidateZero))"

definition OnVlanConfigRemove ::
  "utils_consts \<Rightarrow> ManagerHandler \<Rightarrow> VlanConfig option
     \<Rightarrow> action list \<times> VlanConfig option \<times> error option"
where
  "OnVlanConfigRemove K h vc0 =
     (case vc0 of
        None \<Rightarrow> ([], None, None)
      | Some vc \<Rightarrow>
          let cnName = vc_ClusterNetwork vc
          in (case m_cnCache_Get h cnName of
               Inl err \<Rightarrow> if IsNotFound err then ([], None, None) else ([], None, Some err)
             | Inr cn \<Rightarrow>
                 if lookup (cn_Annotations cn) (KeyMTUSourceVlanConfig K) \<noteq> vc_Name vc
                 then ([], None, None)
                 else
                   (case m_vcCache_List h (KeyClusterNetworkLabel K, cnName) of
                      Inl err \<Rightarrow> ([], None, Some err)
                    | Inr vcs \<Rightarrow>
                        let (found, vcCandidateZero) = find_candidate vc vcs None;
                            vcCandidate = (if is_nil found then vcCandidateZero else found);
                            annotations = make_if_nil (cn_Annotations cn)
                        in (case vcCandidate of
                             Some cand \<Rightarrow>
                               let mtu = MTUDefaultTo (GetMTUFromVlanConfig (Some cand));
                                   cnCopy = cn\<lparr>cn_Annotations :=
                                     Some (annotations
                                             (KeyUplinkMTU K \<mapsto> Sprintf_v mtu,
                                              KeyMTUSourceVlanConfig K \<mapsto> vc_Name cand))\<rparr>
                               in (case m_cnClient_Update h cnCopy of
                                     Some err \<Rightarrow>
                                       ([CnUpdate cnCopy], None,
                                        Some (Wrapped (''failed to update cluster network ''
                                               @ cnName @ '' after deleting source vlan config ''
                                               @ vc_Name vc @ '': '' @ Error err) err))
                                   | None \<Rightarrow> ([CnUpdate cnCopy], None, None))
                           | None \<Rightarrow>
                               let cnCopy = cn\<lparr>cn_Annotations :=
                                     Some (annotations
                                             (KeyMTUSourceVlanConfig K := None,
                                              KeyUplinkMTU K := None))\<rparr>
                               in (case m_cnClient_Update h cnCopy of
                                     Some err \<Rightarrow>
                                       ([CnUpdate cnCopy], None,
                                        Some (Wrapped (''failed to clear cluster network ''
                                               @ cnName
                                               @ '' MTU annotations after deleting source vlan config ''
                                               @ vc_Name vc @ '': '' @ Error err) err))
                                   | None \<Rightarrow> ([CnUpdate cnCopy], None, None))))))"


section \<open>The node agent's controller (pkg/controller/agent/vlanconfig/controller.go)\<close>

text \<open>
  The agent's handler: the name of the local node, and what the caches and clients it
  uses answer. Its fields \<open>vcCache\<close>, \<open>cnClient\<close> and \<open>cnCache\<close> are never used by
  the agent and are left out.
\<close>

record Handler =
  nodeName :: string
  nodeClient_Update :: "Node \<Rightarrow> error option"
  nodeCache_Get :: "string \<Rightarrow> error + Node"
  nadCache_List :: "error + NAD list"
  vsClient_Create :: "VlanStatus \<Rightarrow> error option"
  vsClient_Update :: "VlanStatus \<Rightarrow> error option"
  vsClient_Delete :: "string \<Rightarrow> error option"
  vsCache_Get :: "string \<Rightarrow> error + VlanStatus"

definition bridgeCNIName :: string where
  "bridgeCNIName = ''bridge''"

subsection \<open>The name of a status object\<close>

text \<open>
  \<open>crc32.ChecksumIEEE\<close>: the CRC-32 of the IEEE polynomial (reflected, 0xEDB88320),
  bit by bit; the library computes the same value from tables.
\<close>

definition crc32_bit :: "32 word \<Rightarrow> 32 word" where
  "crc32_bit c = (if bit c 0 then drop_bit 1 c XOR 0xEDB88320 else drop_bit 1 c)"

definition crc32_update :: "32 word \<Rightarrow> char \<Rightarrow> 32 word" where
  "crc32_update c b = (crc32_bit ^^ 8) (c XOR of_char b)"

definition ChecksumIEEE :: "string \<Rightarrow> 32 word" where
  "ChecksumIEEE s = NOT (foldl crc32_update 0xFFFFFFFF s)"

text \<open>
  \<open>fmt.Sprintf("%08x", digest)\<close>: the lower-case hexadecimal digits of the value,
  padded with zeros on the left up to eight characters.
\<close>

fun hex_of_nat :: "nat \<Rightarrow> string" where
  "hex_of_nat n =
     (if n < 16 then [digit_char n] else hex_of_nat (n div 16) @ [digit_char (n mod 16)])"

declare hex_of_nat.simps [simp del]

definition Sprintf_08x :: "32 word \<Rightarrow> string" where
  "Sprintf_08x w =
     (let digits = hex_of_nat (unat w)
      in replicate (8 - length digits) (CHR ''0'') @ digits)"

text \<open>The sixteen characters a hexadecimal digit can be.\<close>

definition hex_digits :: "char set" where
  "hex_digits = set ''0123456789abcdef''"

definition statusName :: "Handler \<Rightarrow> string \<Rightarrow> string" where
  "statusName h vcName =
     (let name = vcName @ ''-'' @ nodeName h;
          digest = ChecksumIEEE name;
          suffix = Sprintf_08x digest;
          maxLengthOfName = 63 - 1 - int (length suffix);
          name' = (if int (length name) > maxLengthOfName
                   then take (nat maxLengthOfName) name else name)
      in name' @ ''-'' @ suffix)"

subsection \<open>Node ownership\<close>

text \<open>The loop of \<open>MatchNode\<close> over the decoded list of matched nodes.\<close>

fun MatchNode_loop ::
  "utils_consts \<Rightarrow> Handler \<Rightarrow> string list \<Rightarrow> bool \<times> string \<times> error option"
where
  "MatchNode_loop K h [] = (False, '''', None)"
| "MatchNode_loop K h (n # ns) =
     (if n = nodeName h
      then (case nodeCache_Get h n of
              Inl err \<Rightarrow> (False, '''', Some err)
            | Inr node \<Rightarrow> (True, lookup (node_Labels node) (KeyVlanConfigLabel K), None))
      else MatchNode_loop K h ns)"

definition MatchNode ::
  "utils_consts \<Rightarrow> extern \<Rightarrow> Handler \<Rightarrow> VlanConfig \<Rightarrow> bool \<times> string \<times> error option"
where
  "MatchNode K X h vc =
     (if is_nil (vc_Annotations vc) \<or> lookup (vc_Annotations vc) (KeyMatchedNodes K) = ''''
      then (False, '''', None)
      else (case json_Unmarshal_strings X (lookup (vc_Annotations vc) (KeyMatchedNodes K)) of
              Inl err \<Rightarrow> (False, '''', None)
            | Inr matchedNodes \<Rightarrow> MatchNode_loop K h matchedNodes))"

subsection \<open>Node labels\<close>

definition addNodeLabel ::
  "utils_consts \<Rightarrow> Handler \<Rightarrow> VlanConfig \<Rightarrow> action list \<times> error option"
where
  "addNodeLabel K h vc =
     (case nodeCache_Get h (nodeName h) of
        Inl err \<Rightarrow> ([], Some err)
      | Inr node \<Rightarrow>
          let key = GroupName K @ ''/'' @ vc_ClusterNetwork vc
          in if \<not> is_nil (node_Labels node) \<and> lookup (node_Labels node) key = ValueTrue K
                \<and> lookup (node_Labels node) (KeyVlanConfigLabel K) = vc_Name vc
             then ([], None)
             else
               let nodeCopy = node\<lparr>node_Labels :=
                     Some ((make_if_nil (node_Labels node))
                             (key \<mapsto> ValueTrue K, KeyVlanConfigLabel K \<mapsto> vc_Name vc))\<rparr>
               in (case nodeClient_Update h nodeCopy of
                     Some err \<Rightarrow>
                       ([NodeUpdate nodeCopy],
                        Some (Wrapped (''add labels for vlanconfig '' @ vc_Name vc @ '' to node ''
                               @ nodeName h @ '' failed, error: '' @ Error err) err))
                   | None \<Rightarrow> ([NodeUpdate nodeCopy], None)))"

definition removeNodeLabel ::
  "utils_consts \<Rightarrow> Handler \<Rightarrow> VlanConfig \<Rightarrow> action list \<times> error option"
where
  "removeNodeLabel K h vc =
     (case nodeCache_Get h (nodeName h) of
        Inl err \<Rightarrow> ([], Some err)
      | Inr node \<Rightarrow>
          let key = GroupName K @ ''/'' @ vc_ClusterNetwork vc
          in if \<not> is_nil (node_Labels node)
                \<and> (lookup (node_Labels node) key = ValueTrue K
                     \<or> lookup (node_Labels node) (KeyVlanConfigLabel K) = vc_Name vc)
             then
               let nodeCopy = node\<lparr>node_Labels :=
                     delete_key (delete_key (node_Labels node) key) (KeyVlanConfigLabel K)\<rparr>
               in (case nodeClient_Update h nodeCopy of
                     Some err \<Rightarrow>
                       ([NodeUpdate nodeCopy],
                        Some (Wrapped (''remove labels for vlanconfig '' @ vc_Name vc
                               @ '' from node '' @ nodeName h @ '' failed, error: ''
                               @ Error err) err))
                   | None \<Rightarrow> ([NodeUpdate nodeCopy], None))
             else ([], None))"

subsection \<open>The status object\<close>

text \<open>
  \<open>updateStatus(vc, v, setupErr)\<close> reads \<open>v\<close> only when \<open>setupErr\<close> is nil, and its one
  caller passes a set-up \<open>v\<close> exactly then, so the two arguments are one here:
  \<open>Inl setupErr\<close> or \<open>Inr v\<close>. \<open>updateStatus_fill\<close> is the part of the function that
  sets the labels, the status fields and the condition of \<open>vStatus\<close>.
\<close>

definition link_status :: "Link \<Rightarrow> LinkStatus" where
  "link_status l =
     \<lparr>ls_Name = link_Name l, ls_Index = link_Index l, ls_Type = link_Type l,
      ls_MAC = link_HardwareAddr l, ls_Promiscuous = (link_Promisc l \<noteq> 0),
      ls_State = link_OperState l, ls_MasterIndex = link_MasterIndex l\<rparr>"

definition updateStatus_fill ::
  "utils_consts \<Rightarrow> Handler \<Rightarrow> VlanConfig \<Rightarrow> error + Vlan \<Rightarrow> VlanStatus \<Rightarrow> VlanStatus"
where
  "updateStatus_fill K h vc r vStatus =
     (let s1 = vStatus\<lparr>vs_Labels :=
                  Some [KeyClusterNetworkLabel K \<mapsto> vc_ClusterNetwork vc,
                        KeyVlanConfigLabel K \<mapsto> vc_Name vc,
                        KeyNodeLabel K \<mapsto> nodeName h],
                vs_ClusterNetwork := vc_ClusterNetwork vc,
                vs_VlanConfig := vc_Name vc,
                vs_Node := nodeName h\<rparr>
      in case r of
           Inr v \<Rightarrow>
             s1\<lparr>vs_Ready := Ready_Message (Ready_SetStatusBool (vs_Ready s1) True) '''',
                vs_LocalAreas := map (\<lambda>la. \<lparr>VID = Vid la, CIDR = Cidr la\<rparr>) (ListLocalArea v),
                vs_LinkStatus := [link_status (Bridge v), link_status (Uplink v)]\<rparr>
         | Inl setupErr \<Rightarrow>
             s1\<lparr>vs_Ready :=
                  Ready_Message (Ready_SetStatusBool (vs_Ready s1) False) (Error setupErr)\<rparr>)"

definition updateStatus ::
  "utils_consts \<Rightarrow> Handler \<Rightarrow> VlanConfig \<Rightarrow> error + Vlan \<Rightarrow> action list \<times> error option"
where
  "updateStatus K h vc r =
     (let name = statusName h (vc_Name vc)
      in case vsCache_Get h name of
           Inl getErr \<Rightarrow>
             if \<not> IsNotFound getErr
             then ([], Some (Wrapped (''could not get vlanstatus '' @ name @ '', error: ''
                                      @ Error getErr) getErr))
             else
               let vStatus = updateStatus_fill K h vc r
                     \<lparr>vs_Name = name,
                      vs_Labels = Some [KeyVlanConfigLabel K \<mapsto> vc_Name vc,
                                        KeyClusterNetworkLabel K \<mapsto> vc_ClusterNetwork vc,
                                        KeyNodeLabel K \<mapsto> nodeName h],
                      vs_OwnerReferences =
                        [\<lparr>or_APIVersion = vc_APIVersion vc, or_Kind = vc_Kind vc,
                          or_Name = vc_Name vc, or_UID = vc_UID vc\<rparr>],
                      vs_DeletionTimestamp = None,
                      vs_ClusterNetwork = '''', vs_VlanConfig = '''', vs_Node = '''',
                      vs_Ready = None, vs_LocalAreas = [], vs_LinkStatus = []\<rparr>
               in (case vsClient_Create h vStatus of
                     Some err \<Rightarrow>
                       ([VsCreate vStatus],
                        Some (Wrapped (''failed to create vlanstatus '' @ name @ '', error: ''
                               @ Error err) err))
                   | None \<Rightarrow> ([VsCreate vStatus], None))
         | Inr vs \<Rightarrow>
             let vStatus = updateStatus_fill K h vc r vs
             in (case vsClient_Update h vStatus of
                   Some err \<Rightarrow>
                     ([VsUpdate vStatus],
                      Some (Wrapped (''failed to update vlanstatus '' @ name @ '', error: ''
                             @ Error err) err))
                 | None \<Rightarrow> ([VsUpdate vStatus], None)))"

definition deleteStatus ::
  "Handler \<Rightarrow> VlanConfig \<Rightarrow> error option \<Rightarrow> action list \<times> error option"
where
  "deleteStatus h vc teardownErr =
     (let name = statusName h (vc_Name vc)
      in case vsCache_Get h name of
           Inl err \<Rightarrow>
             if \<not> IsNotFound err
             then ([], Some (Wrapped (''could not get vlanstatus '' @ name @ '', error: ''
                                      @ Error err) err))
             else ([], None)
         | Inr vs \<Rightarrow>
             (case teardownErr of
                Some terr \<Rightarrow>
                  let vsCopy = vs\<lparr>vs_Ready :=
                        Ready_Message (Ready_SetStatusBool (vs_Ready vs) False) (Error terr)\<rparr>
                  in (case vsClient_Update h vsCopy of
                        Some err \<Rightarrow>
                          ([VsUpdate vsCopy],
                           Some (Wrapped (''failed to update vlanstatus '' @ name @ '', error: ''
                                  @ Error err) err))
                      | None \<Rightarrow> ([VsUpdate vsCopy], None))
              | None \<Rightarrow>
                  (case vsClient_Delete h name of
                     Some err \<Rightarrow>
                       ([VsDelete name],
                        Some (Wrapped (''failed to delete vlanstatus '' @ name @ '', error: ''
                               @ Error err) err))
                   | None \<Rightarrow> ([VsDelete name], None))))"

subsection \<open>Setting up and tearing down the devices\<close>

text \<open>The loop of \<open>getLocalAreas\<close>; the last argument is \<open>localAreas\<close> so far.\<close>

fun getLocalAreas_loop ::
  "extern \<Rightarrow> string \<Rightarrow> NAD list \<Rightarrow> vlan_LocalArea list \<Rightarrow> error + vlan_LocalArea list"
where
  "getLocalAreas_loop X bridgeName [] localAreas = Inr localAreas"
| "getLocalAreas_loop X bridgeName (n # nads) localAreas =
     (case json_Unmarshal_NetConf X (nad_Config n) of
        Inl err \<Rightarrow>
          Inl (Wrapped (''unmarshal failed, error: '' @ Error err @ '', value: '' @ nad_Config n)
                 err)
      | Inr netconf \<Rightarrow>
          if nc_Type netconf = bridgeCNIName \<and> nc_BrName netconf = bridgeName
          then (case nad_GetLocalArea X n of
                  Inl err \<Rightarrow>
                    Inl (Wrapped (''failed to get local area from nad '' @ nad_Namespace n
                           @ ''/'' @ nad_Name n @ '', error: '' @ Error err) err)
                | Inr localArea \<Rightarrow>
                    getLocalAreas_loop X bridgeName nads (localAreas @ [localArea]))
          else getLocalAreas_loop X bridgeName nads localAreas)"

definition getLocalAreas :: "extern \<Rightarrow> Handler \<Rightarrow> string \<Rightarrow> error + vlan_LocalArea list" where
  "getLocalAreas X h bridgeName =
     (case nadCache_List h of
        Inl err \<Rightarrow> Inl (Failure (''list nad failed, error: '' @ Error err))
      | Inr nads \<Rightarrow> getLocalAreas_loop X bridgeName nads [])"

text \<open>
  \<open>setUplink\<close> builds the bond of the uplink and ensures it on the node. The result is
  the bond with its NICs, which is all the agent passes on.
\<close>

definition setUplink ::
  "extern \<Rightarrow> VlanConfig \<Rightarrow> action list \<times> (error + Bond \<times> string list)"
where
  "setUplink X vc =
     (let linkAttrs0 = (netlink_NewLinkAttrs X)\<lparr>la_Name := vc_ClusterNetwork vc @ iface_BondSuffix X\<rparr>;
          linkAttrs =
            (case vc_LinkAttrs vc of
               None \<Rightarrow> linkAttrs0
             | Some a \<Rightarrow>
                 let l1 = (if MTU a \<noteq> 0 then linkAttrs0\<lparr>la_MTU := MTU a\<rparr> else linkAttrs0);
                     l2 = (if TxQLen a \<noteq> 0 then l1\<lparr>la_TxQLen := TxQLen a\<rparr> else l1)
                 in (case HardwareAddr a of
                       Some hw \<Rightarrow> l2\<lparr>la_HardwareAddr := Some hw\<rparr>
                     | None \<Rightarrow> l2));
          bond0 = netlink_NewLinkBond X linkAttrs;
          mode =
            (case vc_BondOptions vc of
               Some bo \<Rightarrow>
                 if Mode bo \<noteq> '''' then netlink_StringToBondMode X (Mode bo)
                 else netlink_BOND_MODE_ACTIVE_BACKUP X
             | None \<Rightarrow> netlink_BOND_MODE_ACTIVE_BACKUP X);
          bond1 = bond0\<lparr>bond_Mode := mode\<rparr>;
          bond =
            (case vc_BondOptions vc of
               Some bo \<Rightarrow> if Miimon bo \<noteq> 0 then bond1\<lparr>bond_Miimon := Miimon bo\<rparr> else bond1
             | None \<Rightarrow> bond1);
          b = (bond, vc_NICs vc)
      in case iface_EnsureBond X b of
           Some err \<Rightarrow> ([EnsureBond b], Inl err)
         | None \<Rightarrow> ([EnsureBond b], Inr b))"

text \<open>
  The three steps of \<open>setupVLAN\<close> before its label \<open>updateStatus\<close>: the device
  actions made, and \<open>Inl setupErr\<close> or the \<open>Vlan\<close> set up.
\<close>

definition setupVLAN_steps ::
  "extern \<Rightarrow> Handler \<Rightarrow> VlanConfig \<Rightarrow> action list \<times> (error + Vlan)"
where
  "setupVLAN_steps X h vc =
     (case getLocalAreas X h
             (iface_GenerateName X (vc_ClusterNetwork vc) (iface_BridgeSuffix X)) of
        Inl setupErr \<Rightarrow> ([], Inl setupErr)
      | Inr localAreas \<Rightarrow>
          (case setUplink X vc of
             (as, Inl setupErr) \<Rightarrow> (as, Inl setupErr)
           | (as, Inr uplink) \<Rightarrow>
               (case vlan_Setup X (vc_ClusterNetwork vc) localAreas uplink of
                  Inl setupErr \<Rightarrow>
                    (as @ [VlanSetup (vc_ClusterNetwork vc) localAreas uplink], Inl setupErr)
                | Inr v \<Rightarrow>
                    (as @ [VlanSetup (vc_ClusterNetwork vc) localAreas uplink], Inr v))))"

definition setupVLAN ::
  "utils_consts \<Rightarrow> extern \<Rightarrow> Handler \<Rightarrow> VlanConfig \<Rightarrow> action list \<times> error option"
where
  "setupVLAN K X h vc =
     (case setupVLAN_steps X h vc of
        (as1, r) \<Rightarrow>
          (case updateStatus K h vc r of
             (as2, Some err) \<Rightarrow>
               (as1 @ as2,
                Some (Wrapped (''update status into vlanstatus '' @ statusName h (vc_Name vc)
                       @ '' failed, error: '' @ Error err @ '', setup error: ''
                       @ fmt_error (case r of Inl setupErr \<Rightarrow> Some setupErr | Inr v \<Rightarrow> None))
                       err))
           | (as2, None) \<Rightarrow>
               (case r of
                  Inl setupErr \<Rightarrow>
                    (as1 @ as2,
                     Some (Wrapped (''set up VLAN failed, vlanconfig: '' @ vc_Name vc
                            @ '', node: '' @ nodeName h @ '', error: '' @ Error setupErr)
                            setupErr))
                | Inr v \<Rightarrow>
                    (case addNodeLabel K h vc of
                       (as3, Some err) \<Rightarrow>
                         (as1 @ as2 @ as3,
                          Some (Wrapped (''add node label to node '' @ nodeName h
                                 @ '' for vlanconfig '' @ vc_Name vc @ '' failed, error: ''
                                 @ Error err) err))
                     | (as3, None) \<Rightarrow> (as1 @ as2 @ as3, None)))))"

text \<open>
  The device part of \<open>removeVLAN\<close>, before its label \<open>updateStatus\<close>: the device
  actions made and \<open>teardownErr\<close>. A link that is not found counts as torn down.
\<close>

definition removeVLAN_teardown ::
  "extern \<Rightarrow> VlanConfig \<Rightarrow> action list \<times> error option"
where
  "removeVLAN_teardown X vc =
     (case vlan_GetVlan X (vc_ClusterNetwork vc) of
        Inl teardownErr \<Rightarrow> ([], if IsLinkNotFound teardownErr then None else Some teardownErr)
      | Inr v \<Rightarrow> ([VlanTeardown v], vlan_Teardown X v))"

definition removeVLAN ::
  "utils_consts \<Rightarrow> extern \<Rightarrow> Handler \<Rightarrow> VlanConfig \<Rightarrow> action list \<times> error option"
where
  "removeVLAN K X h vc =
     (case removeVLAN_teardown X vc of
        (as1, teardownErr) \<Rightarrow>
          (case removeNodeLabel K h vc of
             (as2, Some err) \<Rightarrow> (as1 @ as2, Some err)
           | (as2, None) \<Rightarrow>
               (case deleteStatus h vc teardownErr of
                  (as3, Some err) \<Rightarrow>
                    (as1 @ as2 @ as3,
                     Some (Wrapped (''update status into vlanstatus ''
                            @ statusName h (vc_Name vc) @ '' failed, error: '' @ Error err
                            @ '', teardown error: '' @ fmt_error teardownErr) err))
                | (as3, None) \<Rightarrow>
                    (case teardownErr of
                       Some terr \<Rightarrow>
                         (as1 @ as2 @ as3,
                          Some (Wrapped (''tear down VLAN failed, vlanconfig: '' @ vc_Name vc
                                 @ '', node: '' @ nodeName h @ '', error: '' @ Error terr)
                                 terr))
                     | None \<Rightarrow> (as1 @ as2 @ as3, None)))))"

subsection \<open>The two handlers of the agent\<close>

text \<open>
  \<open>OnChange\<close> checks its object for nil; \<open>OnRemove\<close> reads the object's name at
  once, so it is given an object.
\<close>

definition OnChange ::
  "utils_consts \<Rightarrow> extern \<Rightarrow> Handler \<Rightarrow> VlanConfig option
     \<Rightarrow> action list \<times> VlanConfig option \<times> error option"
where
  "OnChange K X h vc0 =
     (case vc0 of
        None \<Rightarrow> ([], None, None)
      | Some vc \<Rightarrow>
          if vc_DeletionTimestamp vc \<noteq> None then ([], None, None)
          else
            (case MatchNode K X h vc of
               (ok, v, Some err) \<Rightarrow> ([], None, Some err)
             | (ok, v, None) \<Rightarrow>
                 if \<not> ok
                 then (case removeVLAN K X h vc of
                         (as, Some err) \<Rightarrow> (as, None, Some err)
                       | (as, None) \<Rightarrow> (as, Some vc, None))
                 else if v \<noteq> '''' \<and> v \<noteq> vc_Name vc then ([], Some vc, None)
                 else (case setupVLAN K X h vc of
                         (as, Some err) \<Rightarrow> (as, None, Some err)
                       | (as, None) \<Rightarrow> (as, Some vc, None))))"

definition OnRemove ::
  "utils_consts \<Rightarrow> extern \<Rightarrow> Handler \<Rightarrow> VlanConfig
     \<Rightarrow> action list \<times> VlanConfig option \<times> error option"
where
  "OnRemove K X h vc =
     (case removeVLAN K X h vc of
        (as, Some err) \<Rightarrow> (as, None, Some err)
      | (as, None) \<Rightarrow> (as, None, None))"

section \<open>Example objects\<close>

text \<open>Concrete values of the constants and small objects, for evaluating the handlers.\<close>

definition K0 :: utils_consts where
  "K0 = \<lparr>KeyMatchedNodes = ''network.harvesterhci.io/matched-nodes'',
          KeyVlanConfigLabel = ''network.harvesterhci.io/vlanconfig'',
          KeyClusterNetworkLabel = ''network.harvesterhci.io/clusternetwork'',
          KeyNodeLabel = ''network.harvesterhci.io/node'',
          KeyUplinkMTU = ''network.harvesterhci.io/uplink-mtu'',
          KeyMTUSourceVlanConfig = ''network.harvesterhci.io/mtu-source-vc'',
          ValueTrue = ''true'',
          GroupName = ''network.harvesterhci.io''\<rparr>"

definition example_vc :: "string \<Rightarrow> int \<Rightarrow> VlanConfig" where
  "example_vc name mtu =
     \<lparr>vc_Name = name, vc_APIVersion = ''network.harvesterhci.io/v1beta1'', vc_Kind = ''VlanConfig'',
      vc_UID = ''uid-'' @ name,
      vc_Labels = Some [KeyClusterNetworkLabel K0 \<mapsto> ''net1''],
      vc_Annotations = None, vc_DeletionTimestamp = None, vc_ClusterNetwork = ''net1'',
      vc_NICs = [''eth1''],
      vc_LinkAttrs = Some \<lparr>MTU = mtu, TxQLen = 0, HardwareAddr = None\<rparr>,
      vc_BondOptions = None\<rparr>"

definition example_cn :: "string \<Rightarrow> string \<Rightarrow> Condition option \<Rightarrow> ClusterNetwork" where
  "example_cn mtu source ready =
     \<lparr>cn_Name = ''net1'',
      cn_Annotations = Some [KeyUplinkMTU K0 \<mapsto> mtu, KeyMTUSourceVlanConfig K0 \<mapsto> source],
      cn_Ready = ready\<rparr>"

definition example_manager ::
  "ClusterNetwork option \<Rightarrow> VlanStatus list \<Rightarrow> VlanConfig list \<Rightarrow> ManagerHandler" where
  "example_manager cn vss vcs =
     \<lparr>m_cnClient_Create = (\<lambda>c. None),
      m_cnClient_Update = (\<lambda>c. None),
      m_cnCache_Get = (\<lambda>name. case cn of
                          None \<Rightarrow> Inl (NotFound (''clusternetwork '' @ name @ '' not found''))
                        | Some c \<Rightarrow> if name = cn_Name c then Inr c
                                    else Inl (NotFound (''clusternetwork '' @ name @ '' not found''))),
      m_vsCache_List = (\<lambda>(k, v). Inr (filter (\<lambda>s. lookup (vs_Labels s) k = v) vss)),
      m_vcCache_List = (\<lambda>(k, v). Inr (filter (\<lambda>c. lookup (vc_Labels c) k = v) vcs))\<rparr>"


definition example_vs :: "string \<Rightarrow> string \<Rightarrow> bool \<Rightarrow> VlanStatus" where
  "example_vs vcName node ready =
     \<lparr>vs_Name = vcName @ ''-'' @ node,
      vs_Labels = Some [KeyClusterNetworkLabel K0 \<mapsto> ''net1'',
                        KeyVlanConfigLabel K0 \<mapsto> vcName,
                        KeyNodeLabel K0 \<mapsto> node],
      vs_OwnerReferences = [],
      vs_DeletionTimestamp = None,
      vs_ClusterNetwork = ''net1'', vs_VlanConfig = vcName, vs_Node = node,
      vs_Ready = Some \<lparr>Status = (if ready then ''True'' else ''False''), Message = ''''\<rparr>,
      vs_LocalAreas = [], vs_LinkStatus = []\<rparr>"

definition cond :: "string \<Rightarrow> Condition option" where
  "cond s = Some \<lparr>Status = s, Message = ''''\<rparr>"

definition example_vlan :: Vlan where
  "example_vlan =
     \<lparr>ListLocalArea = [\<lparr>Vid = 100, Cidr = ''10.0.0.0/24''\<rparr>],
      Bridge = \<lparr>link_Name = ''net1-br'', link_Index = 5, link_Type = ''bridge'',
                link_HardwareAddr = ''02:00:00:00:00:01'', link_Promisc = 0,
                link_OperState = ''up'', link_MasterIndex = 0\<rparr>,
      Uplink = \<lparr>link_Name = ''net1-bo'', link_Index = 6, link_Type = ''bond'',
                link_HardwareAddr = ''02:00:00:00:00:01'', link_Promisc = 1,
                link_OperState = ''up'', link_MasterIndex = 5\<rparr>\<rparr>"

text \<open>
  Example collaborators: a decoder that knows two node lists and rejects everything
  else, devices that always succeed, and \<open>vlan.GetVlan\<close> answering \<open>dev\<close>.
\<close>

definition example_extern :: "error + Vlan \<Rightarrow> extern" where
  \<open>example_extern dev =
     \<lparr>json_Unmarshal_strings =
        (\<lambda>s. if s = ''["node1"]'' then Inr [''node1'']
             else if s = ''["node2","node1"]'' then Inr [''node2'', ''node1'']
             else if s = ''["node2"]'' then Inr [''node2'']
             else Inl (Failure ''invalid character'')),
      json_Unmarshal_NetConf = (\<lambda>s. Inl (Failure ''unexpected end of JSON input'')),
      nad_GetLocalArea = (\<lambda>n. Inr \<lparr>Vid = 100, Cidr = ''10.0.0.0/24''\<rparr>),
      vlan_GetVlan = (\<lambda>name. dev),
      vlan_Teardown = (\<lambda>v. None),
      vlan_Setup = (\<lambda>name localAreas uplink. Inr example_vlan),
      iface_EnsureBond = (\<lambda>b. None),
      iface_GenerateName = (\<lambda>name suffix. name @ suffix),
      iface_BridgeSuffix = ''-br'',
      iface_BondSuffix = ''-bo'',
      netlink_NewLinkAttrs = \<lparr>la_Name = '''', la_MTU = 0, la_TxQLen = - 1, la_HardwareAddr = None\<rparr>,
      netlink_NewLinkBond = (\<lambda>a. \<lparr>bond_LinkAttrs = a, bond_Mode = - 1, bond_Miimon = - 1\<rparr>),
      netlink_StringToBondMode = (\<lambda>s. if s = ''active-backup'' then 1 else - 1),
      netlink_BOND_MODE_ACTIVE_BACKUP = 1\<rparr>\<close>

text \<open>
  An example agent on node1: the node carries \<open>labels\<close>, and the status cache answers
  \<open>vs\<close> (not-found when there is none) for whatever name is asked.
\<close>

definition example_agent :: "gomap \<Rightarrow> VlanStatus option \<Rightarrow> Handler" where
  "example_agent labels vs =
     \<lparr>nodeName = ''node1'',
      nodeClient_Update = (\<lambda>n. None),
      nodeCache_Get = (\<lambda>name. if name = ''node1''
                               then Inr \<lparr>node_Name = ''node1'', node_Labels = labels\<rparr>
                               else Inl (NotFound (''node '' @ name @ '' not found''))),
      nadCache_List = Inr [],
      vsClient_Create = (\<lambda>s. None),
      vsClient_Update = (\<lambda>s. None),
      vsClient_Delete = (\<lambda>name. None),
      vsCache_Get = (\<lambda>name. case vs of
                               None \<Rightarrow> Inl (NotFound (''vlanstatus '' @ name @ '' not found''))
                             | Some s \<Rightarrow> Inr s)\<rparr>"

definition example_matched_vc :: "string \<Rightarrow> string \<Rightarrow> VlanConfig" where
  "example_matched_vc name nodes =
     (example_vc name 0)\<lparr>vc_Annotations := Some [KeyMatchedNodes K0 \<mapsto> nodes]\<rparr>"

section \<open>The election as the spec words it\<close>

text \<open>
  The spec's words for the re-election: among the listed objects that are not the removed
  one and not marked for deletion (\<open>remaining\<close>), the first with a nonzero valid MTU,
  and only if there is none the first with a zero MTU. \<open>find_candidate\<close> above is the
  loop of the source; the two are compared below.
\<close>

definition remaining :: "VlanConfig \<Rightarrow> VlanConfig list \<Rightarrow> VlanConfig list" where
  "remaining vc vcs =
     filter (\<lambda>item. vc_Name item \<noteq> vc_Name vc \<and> vc_DeletionTimestamp item = None) vcs"

definition elect_replacement :: "VlanConfig \<Rightarrow> VlanConfig list \<Rightarrow> VlanConfig option" where
  "elect_replacement vc vcs =
     (case find (\<lambda>item. GetMTUFromVlanConfig (Some item) \<noteq> 0
                        \<and> IsValidMTU (GetMTUFromVlanConfig (Some item))) (remaining vc vcs) of
        Some cand \<Rightarrow> Some cand
      | None \<Rightarrow> find (\<lambda>item. GetMTUFromVlanConfig (Some item) = 0) (remaining vc vcs))"

section \<open>Properties of the manager's controller\<close>

lemma is_nil_iff [simp]: "is_nil p \<longleftrightarrow> p = None"
  by (cases p) (simp_all add: is_nil_def)

lemma Sprintf_v_DefaultMTU: "Sprintf_v DefaultMTU = ''1500''"
  by (simp add: Sprintf_v_def DefaultMTU_def string_of_nat.simps digit_char_def)

lemma target_invalid:
  "m \<noteq> 0 \<Longrightarrow> m < 576 \<or> 9000 < m \<Longrightarrow> \<not> IsValidMTU m"
  by (auto simp: IsValidMTU_def MinMTU_def MaxMTU_def)

text \<open>
  C10. A configuration object whose declared uplink MTU is nonzero and outside
  576..9000 is handled by \<open>ensureClusterNetwork\<close> exactly as the same object with no
  MTU declared: the target \<open>uplink-mtu\<close> is "1500", in the update of an existing
  cluster network as well as in the creation of a missing one, and an error is returned
  only when the cache or the client fails, never because of the MTU.
\<close>

theorem ensureClusterNetwork_invalid_mtu_defaults:
  "vc_LinkAttrs vc = Some la \<Longrightarrow> MTU la \<noteq> 0 \<Longrightarrow> MTU la < 576 \<or> 9000 < MTU la \<Longrightarrow>
     ensureClusterNetwork K h (vc\<lparr>vc_LinkAttrs := None\<rparr>) = ensureClusterNetwork K h vc
   \<and> (\<forall>cur. m_cnCache_Get h (vc_ClusterNetwork vc) = Inr cur \<longrightarrow>
          fst (ensureClusterNetwork K h vc) =
            (if lookup (cn_Annotations cur) (KeyUplinkMTU K) = ''1500'' then []
             else [CnUpdate (cur\<lparr>cn_Annotations :=
                     Some ((make_if_nil (cn_Annotations cur))
                             (KeyUplinkMTU K \<mapsto> ''1500'',
                              KeyMTUSourceVlanConfig K \<mapsto> vc_Name vc))\<rparr>)]))
   \<and> (\<forall>e. m_cnCache_Get h (vc_ClusterNetwork vc) = Inl e \<and> IsNotFound e \<longrightarrow>
          fst (ensureClusterNetwork K h vc) =
            [CnCreate \<lparr>cn_Name = vc_ClusterNetwork vc,
                       cn_Annotations = Some [KeyUplinkMTU K \<mapsto> ''1500'',
                                              KeyMTUSourceVlanConfig K \<mapsto> vc_Name vc],
                       cn_Ready = None\<rparr>])
   \<and> ((\<forall>e. m_cnCache_Get h (vc_ClusterNetwork vc) = Inl e \<longrightarrow> IsNotFound e)
        \<and> (\<forall>c. m_cnClient_Update h c = None) \<and> (\<forall>c. m_cnClient_Create h c = None)
        \<longrightarrow> snd (ensureClusterNetwork K h vc) = None)"
  by (auto simp: ensureClusterNetwork_def ensureClusterNetwork_found_def Let_def
        GetMTUFromVlanConfig_def target_invalid Sprintf_v_DefaultMTU
        split: sum.splits option.splits)

theorem ensureClusterNetwork_invalid_mtu_defaults_witness:
  "fst (ensureClusterNetwork K0 (example_manager (Some (example_cn ''9000'' ''a'' None)) [] [])
         (example_vc ''b'' 100))
     = [CnUpdate (example_cn ''1500'' ''b'' None)]
   \<and> snd (ensureClusterNetwork K0 (example_manager (Some (example_cn ''9000'' ''a'' None)) [] [])
         (example_vc ''b'' 100)) = None
   \<and> fst (ensureClusterNetwork K0 (example_manager None [] []) (example_vc ''b'' 9001))
     = [CnCreate (example_cn ''1500'' ''b'' None)]"
  using ensureClusterNetwork_invalid_mtu_defaults
          [where vc = "example_vc ''b'' 100"
             and la = "\<lparr>MTU = 100, TxQLen = 0, HardwareAddr = None\<rparr>"
             and h = "example_manager (Some (example_cn ''9000'' ''a'' None)) [] []" and K = K0]
        ensureClusterNetwork_invalid_mtu_defaults
          [where vc = "example_vc ''b'' 9001"
             and la = "\<lparr>MTU = 9001, TxQLen = 0, HardwareAddr = None\<rparr>"
             and h = "example_manager None [] []" and K = K0]
  by (simp add: example_vc_def example_manager_def example_cn_def K0_def lookup_def
        make_if_nil_def)


text \<open>
  C1, as stated, fails. The cluster network carries \<open>uplink-mtu\<close> = "0", which
  \<open>GetMTUFromString\<close> reads as 0, and the configuration object declares no MTU, so its
  effective MTU is 1500. \<open>AreEqualMTUs 0 1500\<close> holds, yet \<open>ensureClusterNetwork\<close>
  compares the strings "0" and "1500" and writes.
\<close>

theorem ensureClusterNetwork_raw_string_counterexample:
  "lookup (cn_Annotations (example_cn ''0'' ''a'' None)) (KeyUplinkMTU K0) = ''0''
   \<and> GetMTUFromString ''0'' = Inr 0
   \<and> GetMTUFromVlanConfig (Some (example_vc ''a'' 0)) = 0
   \<and> AreEqualMTUs 0 (MTUDefaultTo 0)
   \<and> fst (ensureClusterNetwork K0 (example_manager (Some (example_cn ''0'' ''a'' None)) [] [])
            (example_vc ''a'' 0))
       = [CnUpdate (example_cn ''1500'' ''a'' None)]"
  by (simp add: ensureClusterNetwork_def ensureClusterNetwork_found_def Let_def
        example_manager_def example_cn_def example_vc_def K0_def lookup_def make_if_nil_def
        GetMTUFromString_def Atoi_def is_digit_def digit_val_def IsValidMTU_def
        GetMTUFromVlanConfig_def AreEqualMTUs_def MTUDefaultTo_def Sprintf_v_DefaultMTU)

text \<open>
  C1, amended. When the cluster network exists, \<open>ensureClusterNetwork\<close> writes nothing
  if and only if the current \<open>uplink-mtu\<close> annotation is, as a string, the decimal text
  of the object's effective MTU (its declared MTU when valid, defaulted by
  \<open>MTUDefaultTo\<close>, and the default otherwise). When the strings differ, the one write is
  an update of the cluster network in which \<open>mtu-source\<close> is this object's name and
  \<open>uplink-mtu\<close> is that text.
\<close>

theorem ensureClusterNetwork_existing_no_write_iff:
  "m_cnCache_Get h (vc_ClusterNetwork vc) = Inr cur \<Longrightarrow>
   vcMtu = GetMTUFromVlanConfig (Some vc) \<Longrightarrow>
   targetMTU = Sprintf_v (if IsValidMTU vcMtu then MTUDefaultTo vcMtu else DefaultMTU) \<Longrightarrow>
   cnCopy = cur\<lparr>cn_Annotations :=
              Some ((make_if_nil (cn_Annotations cur))
                      (KeyUplinkMTU K \<mapsto> targetMTU,
                       KeyMTUSourceVlanConfig K \<mapsto> vc_Name vc))\<rparr> \<Longrightarrow>
     (fst (ensureClusterNetwork K h vc) = []
        \<longleftrightarrow> lookup (cn_Annotations cur) (KeyUplinkMTU K) = targetMTU)
   \<and> (lookup (cn_Annotations cur) (KeyUplinkMTU K) \<noteq> targetMTU \<longrightarrow>
         fst (ensureClusterNetwork K h vc) = [CnUpdate cnCopy]
         \<and> lookup (cn_Annotations cnCopy) (KeyMTUSourceVlanConfig K) = vc_Name vc
         \<and> (KeyUplinkMTU K \<noteq> KeyMTUSourceVlanConfig K \<longrightarrow>
               lookup (cn_Annotations cnCopy) (KeyUplinkMTU K) = targetMTU))"
  by (auto simp: ensureClusterNetwork_def ensureClusterNetwork_found_def Let_def
        MTUDefaultTo_def lookup_def split: option.splits)

theorem ensureClusterNetwork_existing_no_write_iff_witness:
  "fst (ensureClusterNetwork K0 (example_manager (Some (example_cn ''1500'' ''a'' None)) [] [])
          (example_vc ''b'' 9000))
     = [CnUpdate (example_cn ''9000'' ''b'' None)]
   \<and> fst (ensureClusterNetwork K0 (example_manager (Some (example_cn ''1500'' ''a'' None)) [] [])
          (example_vc ''b'' 0)) = []"
  using ensureClusterNetwork_existing_no_write_iff
          [where h = "example_manager (Some (example_cn ''1500'' ''a'' None)) [] []"
             and vc = "example_vc ''b'' 9000" and cur = "example_cn ''1500'' ''a'' None"
             and K = K0, OF _ refl refl refl]
        ensureClusterNetwork_existing_no_write_iff
          [where h = "example_manager (Some (example_cn ''1500'' ''a'' None)) [] []"
             and vc = "example_vc ''b'' 0" and cur = "example_cn ''1500'' ''a'' None"
             and K = K0, OF _ refl refl refl]
  by (simp add: example_manager_def example_cn_def example_vc_def K0_def lookup_def
        make_if_nil_def GetMTUFromVlanConfig_def IsValidMTU_def MinMTU_def MaxMTU_def
        MTUDefaultTo_def DefaultMTU_def Sprintf_v_def string_of_nat.simps digit_char_def)

text \<open>
  C9. For a status object without a deletion marker, \<open>SetClusterNetworkReady\<close> writes
  nothing when the Ready condition of its cluster network is already true and otherwise
  updates the cluster network with Ready set to true (when the cluster network cannot be
  read from the cache, it writes nothing and returns an error). The status object's own
  Ready condition is never read: replacing it by any other value \<open>r\<close>, an Unready one
  included, gives the same writes.
\<close>

theorem SetClusterNetworkReady_whatever_status_reports:
  "vs_DeletionTimestamp vs = None \<Longrightarrow>
     (case m_cnCache_Get h (vs_ClusterNetwork vs) of
        Inr cn \<Rightarrow>
          fst (SetClusterNetworkReady h (Some vs)) =
            (if Ready_IsTrue (cn_Ready cn) then []
             else [CnUpdate (cn\<lparr>cn_Ready := Ready_True (cn_Ready cn)\<rparr>)])
          \<and> Ready_IsTrue (Ready_True (cn_Ready cn))
      | Inl err \<Rightarrow>
          fst (SetClusterNetworkReady h (Some vs)) = []
          \<and> snd (snd (SetClusterNetworkReady h (Some vs))) \<noteq> None)
   \<and> fst (SetClusterNetworkReady h (Some (vs\<lparr>vs_Ready := r\<rparr>))) =
       fst (SetClusterNetworkReady h (Some vs))"
  by (auto simp: SetClusterNetworkReady_def setClusterNetworkReady_def Let_def
        Ready_IsTrue_def Ready_True_def split: option.splits sum.splits)

theorem SetClusterNetworkReady_whatever_status_reports_witness:
  "Ready_IsFalse (vs_Ready (example_vs ''a'' ''node1'' False))
   \<and> fst (SetClusterNetworkReady
            (example_manager (Some (example_cn ''1500'' ''a'' (cond ''False''))) [] [])
            (Some (example_vs ''a'' ''node1'' False)))
       = [CnUpdate (example_cn ''1500'' ''a'' (cond ''True''))]"
  using SetClusterNetworkReady_whatever_status_reports
          [where vs = "example_vs ''a'' ''node1'' False"
             and h = "example_manager (Some (example_cn ''1500'' ''a'' (cond ''False''))) [] []"]
  by (simp add: example_vs_def example_manager_def example_cn_def cond_def
        Ready_IsTrue_def Ready_IsFalse_def Ready_True_def find_or_create_def)

text \<open>
  C3. On the removal of a status object, with \<open>vsList\<close> the status objects the cache
  lists for its cluster network: more than one remaining, nothing is written and no error
  is returned; exactly one remaining under another name, nothing is written and an error
  is returned; none remaining, or only the removed one, the cluster network is updated
  with Ready set to false, unless it is false already, in which case nothing is written
  (and when the cluster network cannot be read, nothing is written and the error is
  returned).
\<close>

theorem SetClusterNetworkUnready_by_remaining_count:
  "m_vsCache_List h (KeyClusterNetworkLabel K, vs_ClusterNetwork vs) = Inr vsList \<Longrightarrow>
     (1 < length vsList \<longrightarrow> SetClusterNetworkUnready K h (Some vs) = ([], Some vs, None))
   \<and> (length vsList = 1 \<and> vs_Name (hd vsList) \<noteq> vs_Name vs \<longrightarrow>
         fst (SetClusterNetworkUnready K h (Some vs)) = []
         \<and> snd (snd (SetClusterNetworkUnready K h (Some vs))) \<noteq> None)
   \<and> (vsList = [] \<or> (length vsList = 1 \<and> vs_Name (hd vsList) = vs_Name vs) \<longrightarrow>
         (case m_cnCache_Get h (vs_ClusterNetwork vs) of
            Inl err \<Rightarrow> fst (SetClusterNetworkUnready K h (Some vs)) = []
                       \<and> snd (snd (SetClusterNetworkUnready K h (Some vs))) \<noteq> None
          | Inr cn \<Rightarrow>
              Ready_IsFalse (Ready_False (cn_Ready cn))
              \<and> (if Ready_IsFalse (cn_Ready cn)
                  then SetClusterNetworkUnready K h (Some vs) = ([], Some vs, None)
                  else fst (SetClusterNetworkUnready K h (Some vs)) =
                         [CnUpdate (cn\<lparr>cn_Ready := Ready_False (cn_Ready cn)\<rparr>)])))"
  by (cases vsList)
     (auto simp: SetClusterNetworkUnready_def setClusterNetworkUnready_def Let_def
        Ready_IsFalse_def Ready_False_def split: option.splits sum.splits)

theorem SetClusterNetworkUnready_by_remaining_count_witness:
  "fst (SetClusterNetworkUnready K0
          (example_manager (Some (example_cn ''1500'' ''a'' (cond ''True'')))
             [example_vs ''a'' ''node1'' True] [])
          (Some (example_vs ''a'' ''node1'' True)))
     = [CnUpdate (example_cn ''1500'' ''a'' (cond ''False''))]
   \<and> SetClusterNetworkUnready K0
          (example_manager (Some (example_cn ''1500'' ''a'' (cond ''True'')))
             [example_vs ''a'' ''node1'' True, example_vs ''a'' ''node2'' True] [])
          (Some (example_vs ''a'' ''node1'' True))
     = ([], Some (example_vs ''a'' ''node1'' True), None)
   \<and> fst (SetClusterNetworkUnready K0
          (example_manager (Some (example_cn ''1500'' ''a'' (cond ''True'')))
             [example_vs ''a'' ''node2'' True] [])
          (Some (example_vs ''a'' ''node1'' True))) = []
   \<and> snd (snd (SetClusterNetworkUnready K0
          (example_manager (Some (example_cn ''1500'' ''a'' (cond ''True'')))
             [example_vs ''a'' ''node2'' True] [])
          (Some (example_vs ''a'' ''node1'' True)))) \<noteq> None"
  using SetClusterNetworkUnready_by_remaining_count
          [where h = "example_manager (Some (example_cn ''1500'' ''a'' (cond ''True'')))
                        [example_vs ''a'' ''node1'' True] []"
             and K = K0 and vs = "example_vs ''a'' ''node1'' True"
             and vsList = "[example_vs ''a'' ''node1'' True]"]
        SetClusterNetworkUnready_by_remaining_count
          [where h = "example_manager (Some (example_cn ''1500'' ''a'' (cond ''True'')))
                        [example_vs ''a'' ''node1'' True, example_vs ''a'' ''node2'' True] []"
             and K = K0 and vs = "example_vs ''a'' ''node1'' True"
             and vsList = "[example_vs ''a'' ''node1'' True, example_vs ''a'' ''node2'' True]"]
        SetClusterNetworkUnready_by_remaining_count
          [where h = "example_manager (Some (example_cn ''1500'' ''a'' (cond ''True'')))
                        [example_vs ''a'' ''node2'' True] []"
             and K = K0 and vs = "example_vs ''a'' ''node1'' True"
             and vsList = "[example_vs ''a'' ''node2'' True]"]
  by (simp add: example_vs_def example_manager_def example_cn_def cond_def K0_def lookup_def
        Ready_IsFalse_def Ready_False_def find_or_create_def)

lemma IsValidMTU_zero: "IsValidMTU 0"
  by (simp add: IsValidMTU_def)

lemma remaining_Nil: "remaining vc [] = []"
  by (simp add: remaining_def)

lemma remaining_Cons:
  "remaining vc (item # rest) =
     (if vc_Name item = vc_Name vc \<or> vc_DeletionTimestamp item \<noteq> None
      then remaining vc rest else item # remaining vc rest)"
  by (simp add: remaining_def)

lemma find_candidate_elects:
  "(case find_candidate vc vcs zero of (found, z) \<Rightarrow> if found = None then z else found) =
     (case find (\<lambda>item. GetMTUFromVlanConfig (Some item) \<noteq> 0
                        \<and> IsValidMTU (GetMTUFromVlanConfig (Some item))) (remaining vc vcs) of
        Some cand \<Rightarrow> Some cand
      | None \<Rightarrow> (case zero of
                   Some z \<Rightarrow> Some z
                 | None \<Rightarrow> find (\<lambda>item. GetMTUFromVlanConfig (Some item) = 0) (remaining vc vcs)))"
proof (induction vcs arbitrary: zero)
  case Nil
  show ?case by (simp add: remaining_Nil split: option.splits)
next
  case (Cons item rest)
  show ?case
  proof (cases "vc_Name item = vc_Name vc \<or> vc_DeletionTimestamp item \<noteq> None")
    case True
    then show ?thesis using Cons.IH [of zero] by (simp add: remaining_Cons cong: option.case_cong)
  next
    case False
    note keep = this
    show ?thesis
    proof (cases "IsValidMTU (GetMTUFromVlanConfig (Some item))")
      case False
      then have "GetMTUFromVlanConfig (Some item) \<noteq> 0" using IsValidMTU_zero by metis
      with False keep show ?thesis using Cons.IH [of zero] by (simp add: remaining_Cons cong: option.case_cong)
    next
      case True
      note valid = this
      show ?thesis
      proof (cases "GetMTUFromVlanConfig (Some item) = 0")
        case False
        with valid keep show ?thesis by (simp add: remaining_Cons cong: option.case_cong)
      next
        case True
        show ?thesis
        proof (cases zero)
          case None
          with True valid keep show ?thesis
            using Cons.IH [of "Some item"] by (simp add: remaining_Cons cong: option.case_cong)
        next
          case (Some z)
          with True valid keep show ?thesis
            using Cons.IH [of "Some z"] by (simp add: remaining_Cons cong: option.case_cong)
        qed
      qed
    qed
  qed
qed

lemma find_candidate_elect_replacement:
  "find_candidate vc vcs None = (found, z) \<Longrightarrow>
     (if found = None then z else found) = elect_replacement vc vcs"
  using find_candidate_elects [of vc vcs None]
  by (simp add: elect_replacement_def split: option.splits)

text \<open>
  C2. When the removed configuration object is the recorded \<open>mtu-source\<close>,
  \<open>OnVlanConfigRemove\<close> makes exactly one write, an update of the cluster network:
  with a replacement elected as the spec words it (\<open>elect_replacement\<close>), both
  annotations are set to the replacement's name and defaulted MTU; with none, both
  annotations are removed.
\<close>

theorem OnVlanConfigRemove_reelects_source:
  "m_cnCache_Get h (vc_ClusterNetwork vc) = Inr cn \<Longrightarrow>
   lookup (cn_Annotations cn) (KeyMTUSourceVlanConfig K) = vc_Name vc \<Longrightarrow>
   m_vcCache_List h (KeyClusterNetworkLabel K, vc_ClusterNetwork vc) = Inr vcs \<Longrightarrow>
     fst (OnVlanConfigRemove K h (Some vc)) =
       [CnUpdate (cn\<lparr>cn_Annotations := Some
          (case elect_replacement vc vcs of
             Some cand \<Rightarrow>
               (make_if_nil (cn_Annotations cn))
                 (KeyUplinkMTU K \<mapsto> Sprintf_v (MTUDefaultTo (GetMTUFromVlanConfig (Some cand))),
                  KeyMTUSourceVlanConfig K \<mapsto> vc_Name cand)
           | None \<Rightarrow>
               (make_if_nil (cn_Annotations cn))
                 (KeyMTUSourceVlanConfig K := None, KeyUplinkMTU K := None))\<rparr>)]"
proof -
  assume a: "m_cnCache_Get h (vc_ClusterNetwork vc) = Inr cn"
    "lookup (cn_Annotations cn) (KeyMTUSourceVlanConfig K) = vc_Name vc"
    "m_vcCache_List h (KeyClusterNetworkLabel K, vc_ClusterNetwork vc) = Inr vcs"
  obtain found z where fz: "find_candidate vc vcs None = (found, z)"
    by (cases "find_candidate vc vcs None")
  have e: "(if found = None then z else found) = elect_replacement vc vcs"
    using fz by (rule find_candidate_elect_replacement)
  show ?thesis
    using a fz e
    by (cases "elect_replacement vc vcs")
       (simp_all add: OnVlanConfigRemove_def Let_def split: option.splits)
qed


theorem OnVlanConfigRemove_reelects_source_witness:
  "fst (OnVlanConfigRemove K0
          (example_manager (Some (example_cn ''9000'' ''b'' None)) []
             [example_vc ''b'' 9000, example_vc ''c'' 0, example_vc ''d'' 0, example_vc ''e'' 9000])
          (Some (example_vc ''b'' 9000)))
     = [CnUpdate (example_cn ''9000'' ''e'' None)]
   \<and> fst (OnVlanConfigRemove K0
          (example_manager (Some (example_cn ''9000'' ''b'' None)) []
             [example_vc ''b'' 9000, example_vc ''a'' 0])
          (Some (example_vc ''b'' 9000)))
     = [CnUpdate (example_cn ''1500'' ''a'' None)]
   \<and> fst (OnVlanConfigRemove K0
          (example_manager (Some (example_cn ''9000'' ''b'' None)) [] [example_vc ''b'' 9000])
          (Some (example_vc ''b'' 9000)))
     = [CnUpdate \<lparr>cn_Name = ''net1'', cn_Annotations = Some Map.empty, cn_Ready = None\<rparr>]"
  using OnVlanConfigRemove_reelects_source
          [where K = K0 and vc = "example_vc ''b'' 9000" and cn = "example_cn ''9000'' ''b'' None"
             and h = "example_manager (Some (example_cn ''9000'' ''b'' None)) []
                [example_vc ''b'' 9000, example_vc ''c'' 0, example_vc ''d'' 0, example_vc ''e'' 9000]"
             and vcs = "[example_vc ''b'' 9000, example_vc ''c'' 0, example_vc ''d'' 0, example_vc ''e'' 9000]"]
        OnVlanConfigRemove_reelects_source
          [where K = K0 and vc = "example_vc ''b'' 9000" and cn = "example_cn ''9000'' ''b'' None"
             and h = "example_manager (Some (example_cn ''9000'' ''b'' None)) []
                [example_vc ''b'' 9000, example_vc ''a'' 0]"
             and vcs = "[example_vc ''b'' 9000, example_vc ''a'' 0]"]
        OnVlanConfigRemove_reelects_source
          [where K = K0 and vc = "example_vc ''b'' 9000" and cn = "example_cn ''9000'' ''b'' None"
             and h = "example_manager (Some (example_cn ''9000'' ''b'' None)) [] [example_vc ''b'' 9000]"
             and vcs = "[example_vc ''b'' 9000]"]
  by (simp add: example_manager_def example_cn_def example_vc_def K0_def lookup_def
        make_if_nil_def elect_replacement_def remaining_def GetMTUFromVlanConfig_def
        IsValidMTU_def MinMTU_def MaxMTU_def MTUDefaultTo_def DefaultMTU_def Sprintf_v_def
        string_of_nat.simps digit_char_def)

section \<open>Properties of the node agent's controller\<close>

lemma funpow_8: "(f ^^ 8) x = f (f (f (f (f (f (f (f x)))))))"
  by (simp add: eval_nat_numeral)

text \<open>The checksum at the standard check input of CRC-32.\<close>

lemma ChecksumIEEE_check: "ChecksumIEEE ''123456789'' = 0xCBF43926"
  by (simp add: ChecksumIEEE_def crc32_update_def crc32_bit_def funpow_8)

lemma digit_char_hex: "d < 16 \<Longrightarrow> digit_char d \<in> hex_digits"
  unfolding digit_char_def hex_digits_def by (rule nth_mem) simp

lemma hex_of_nat_digits: "set (hex_of_nat n) \<subseteq> hex_digits"
proof (induction n rule: hex_of_nat.induct)
  case (1 n)
  show ?case
  proof (cases "n < 16")
    case True
    then show ?thesis
      using digit_char_hex [of n] by (subst hex_of_nat.simps) simp
  next
    case False
    have "n mod 16 < 16" by simp
    then have "digit_char (n mod 16) \<in> hex_digits" by (rule digit_char_hex)
    with False "1.IH" show ?thesis by (subst hex_of_nat.simps) simp
  qed
qed

lemma hex_of_nat_length: "0 < k \<Longrightarrow> n < 16 ^ k \<Longrightarrow> length (hex_of_nat n) \<le> k"
proof (induction k arbitrary: n)
  case 0
  then show ?case by simp
next
  case (Suc k)
  show ?case
  proof (cases "n < 16")
    case True
    then show ?thesis by (subst hex_of_nat.simps) simp
  next
    case False
    with Suc.prems have k: "0 < k" by (cases k) auto
    from Suc.prems have "n div 16 < 16 ^ k"
      by (simp add: less_mult_imp_div_less mult.commute)
    with k have "length (hex_of_nat (n div 16)) \<le> k" by (rule Suc.IH)
    with False show ?thesis by (subst hex_of_nat.simps) simp
  qed
qed

lemma Sprintf_08x_length: "length (Sprintf_08x w) = 8"
proof -
  have "unat w < 2 ^ 32" using unsigned_less [of w] by simp
  then have "unat w < 16 ^ 8" by simp
  then have "length (hex_of_nat (unat w)) \<le> 8" by (intro hex_of_nat_length) simp_all
  then show ?thesis by (simp add: Sprintf_08x_def Let_def)
qed

lemma Sprintf_08x_digits: "set (Sprintf_08x w) \<subseteq> hex_digits"
proof -
  have zero: "CHR ''0'' \<in> hex_digits"
    using digit_char_hex [of 0] by (simp add: digit_char_def)
  have "set (replicate k (CHR ''0'')) \<subseteq> hex_digits" for k
    using zero by (cases "k = 0") simp_all
  then show ?thesis
    using hex_of_nat_digits [of "unat w"] by (simp add: Sprintf_08x_def Let_def)
qed

text \<open>
  C8. The name of the status object of a configuration object on a node is the first 54
  characters of \<open><configuration name>-<node name>\<close>, a dash, and the checksum of the
  whole, untruncated \<open><configuration name>-<node name>\<close> as exactly eight hexadecimal
  digits; so it is at most 63 characters long and always ends with the full checksum. It
  depends on the handler through the node name only: two handlers of the same node give
  the same name.
\<close>

theorem statusName_bounded_with_full_checksum:
  "statusName h vcName =
     take 54 (vcName @ ''-'' @ nodeName h) @ ''-''
       @ Sprintf_08x (ChecksumIEEE (vcName @ ''-'' @ nodeName h))
   \<and> length (Sprintf_08x (ChecksumIEEE (vcName @ ''-'' @ nodeName h))) = 8
   \<and> set (Sprintf_08x (ChecksumIEEE (vcName @ ''-'' @ nodeName h)))
        \<subseteq> hex_digits
   \<and> length (statusName h vcName) \<le> 63
   \<and> (nodeName h' = nodeName h \<longrightarrow> statusName h' vcName = statusName h vcName)"
proof -
  let ?name = "vcName @ ''-'' @ nodeName h"
  let ?suffix = "Sprintf_08x (ChecksumIEEE ?name)"
  have len: "length ?suffix = 8" by (rule Sprintf_08x_length)
  have eq: "statusName h vcName = take 54 ?name @ ''-'' @ ?suffix"
    using len by (simp add: statusName_def Let_def)
  have "length (take 54 ?name) \<le> 54" by simp
  with len eq have bound: "length (statusName h vcName) \<le> 63" by simp
  have det: "nodeName h' = nodeName h \<longrightarrow> statusName h' vcName = statusName h vcName"
    by (simp add: statusName_def)
  show ?thesis
    using eq len Sprintf_08x_digits [of "ChecksumIEEE ?name"] bound det by (intro conjI)
qed

theorem statusName_bounded_with_full_checksum_witness:
  "length (statusName (example_agent None None)
             ''a-vlanconfig-with-a-name-that-is-much-longer-than-the-limit-of-a-status-name'') \<le> 63
   \<and> statusName (example_agent (Some Map.empty) None) ''vc1''
       = statusName (example_agent None None) ''vc1''"
  using statusName_bounded_with_full_checksum
          [where h = "example_agent None None"
             and vcName = "''a-vlanconfig-with-a-name-that-is-much-longer-than-the-limit-of-a-status-name''"]
        statusName_bounded_with_full_checksum
          [where h = "example_agent None None" and h' = "example_agent (Some Map.empty) None"
             and vcName = "''vc1''"]
  by (simp add: example_agent_def)

text \<open>
  C6. When the configuration object has no annotations, or its matched-node annotation
  is absent or empty, or the JSON decoder rejects the annotation, \<open>MatchNode\<close> answers
  (false, "", nil): no match, no owner and no error, whatever the decoder is.
\<close>

theorem MatchNode_missing_or_malformed_annotation:
  "vc_Annotations vc = None
   \<or> lookup (vc_Annotations vc) (KeyMatchedNodes K) = ''''
   \<or> (\<exists>err. json_Unmarshal_strings X (lookup (vc_Annotations vc) (KeyMatchedNodes K)) = Inl err)
   \<Longrightarrow> MatchNode K X h vc = (False, '''', None)"
  by (auto simp: MatchNode_def)

theorem MatchNode_missing_or_malformed_annotation_witness:
  \<open>MatchNode K0 (example_extern (Inl (LinkNotFound ''Link not found''))) (example_agent None None)
      (example_matched_vc ''a'' ''["node1",'') = (False, '''', None)
   \<and> MatchNode K0 (example_extern (Inl (LinkNotFound ''Link not found''))) (example_agent None None)
      (example_matched_vc ''a'' '''') = (False, '''', None)
   \<and> MatchNode K0 (example_extern (Inl (LinkNotFound ''Link not found''))) (example_agent None None)
      (example_vc ''a'' 0) = (False, '''', None)\<close>
  using MatchNode_missing_or_malformed_annotation
          [where vc = \<open>example_matched_vc ''a'' ''["node1",''\<close> and K = K0
             and X = "example_extern (Inl (LinkNotFound ''Link not found''))"
             and h = "example_agent None None"]
        MatchNode_missing_or_malformed_annotation
          [where vc = \<open>example_matched_vc ''a'' ''''\<close> and K = K0
             and X = "example_extern (Inl (LinkNotFound ''Link not found''))"
             and h = "example_agent None None"]
        MatchNode_missing_or_malformed_annotation
          [where vc = \<open>example_vc ''a'' 0\<close> and K = K0
             and X = "example_extern (Inl (LinkNotFound ''Link not found''))"
             and h = "example_agent None None"]
  by (simp add: example_matched_vc_def example_vc_def example_extern_def K0_def lookup_def)

text \<open>
  C7. On a change event for a configuration object without a deletion marker, when
  \<open>MatchNode\<close> answers that the node matches and names a current owner that is not
  empty and is not this configuration object, \<open>OnChange\<close> does nothing at all (no
  device action and no write) and returns the object with a nil error.
\<close>

theorem OnChange_other_owner_no_action:
  "vc_DeletionTimestamp vc = None \<Longrightarrow>
   MatchNode K X h vc = (True, currentOwner, None) \<Longrightarrow>
   currentOwner \<noteq> '''' \<Longrightarrow> currentOwner \<noteq> vc_Name vc \<Longrightarrow>
     OnChange K X h (Some vc) = ([], Some vc, None)"
  by (simp add: OnChange_def)

theorem OnChange_other_owner_no_action_witness:
  \<open>MatchNode K0 (example_extern (Inr example_vlan))
      (example_agent (Some [''network.harvesterhci.io/net1'' \<mapsto> ''true'',
                            KeyVlanConfigLabel K0 \<mapsto> ''x'']) None)
      (example_matched_vc ''y'' ''["node2","node1"]'') = (True, ''x'', None)
   \<and> OnChange K0 (example_extern (Inr example_vlan))
      (example_agent (Some [''network.harvesterhci.io/net1'' \<mapsto> ''true'',
                            KeyVlanConfigLabel K0 \<mapsto> ''x'']) None)
      (Some (example_matched_vc ''y'' ''["node2","node1"]''))
     = ([], Some (example_matched_vc ''y'' ''["node2","node1"]''), None)\<close>
proof -
  have m: \<open>MatchNode K0 (example_extern (Inr example_vlan))
      (example_agent (Some [''network.harvesterhci.io/net1'' \<mapsto> ''true'',
                            KeyVlanConfigLabel K0 \<mapsto> ''x'']) None)
      (example_matched_vc ''y'' ''["node2","node1"]'') = (True, ''x'', None)\<close>
    by (simp add: MatchNode_def example_matched_vc_def example_vc_def example_extern_def
          example_agent_def K0_def lookup_def)
  have d: \<open>vc_DeletionTimestamp (example_matched_vc ''y'' ''["node2","node1"]'') = None\<close>
    and n: \<open>''x'' \<noteq> vc_Name (example_matched_vc ''y'' ''["node2","node1"]'')\<close>
    by (simp_all add: example_matched_vc_def example_vc_def)
  from m OnChange_other_owner_no_action [OF d m _ n] show ?thesis by simp
qed

text \<open>
  Where ownership lets it proceed, the same handler does act on the devices: with no
  recorded owner it ensures the bond, sets the VLAN up and then writes the status and the
  node's labels; when the node does not match, it tears the VLAN down first.
\<close>

lemma OnChange_example_proceeds:
  \<open>map is_device_action
     (fst (OnChange K0 (example_extern (Inl (LinkNotFound ''Link not found'')))
             (example_agent None None) (Some (example_matched_vc ''x'' ''["node1"]''))))
   = [True, True, False, False]\<close>
  by (simp add: OnChange_def MatchNode_def setupVLAN_def setupVLAN_steps_def getLocalAreas_def
        setUplink_def updateStatus_def addNodeLabel_def Let_def
        example_matched_vc_def example_vc_def example_extern_def example_agent_def K0_def
        lookup_def)

lemma OnChange_example_unmatched_tears_down:
  \<open>map is_device_action
     (fst (OnChange K0 (example_extern (Inr example_vlan))
             (example_agent (Some [''network.harvesterhci.io/net1'' \<mapsto> ''true'',
                                   KeyVlanConfigLabel K0 \<mapsto> ''x''])
                (Some (example_vs ''x'' ''node1'' True)))
             (Some (example_matched_vc ''x'' ''["node2"]''))))
   = [True, False, False]\<close>
  by (simp add: OnChange_def MatchNode_def removeVLAN_def removeVLAN_teardown_def
        removeNodeLabel_def deleteStatus_def Let_def
        example_matched_vc_def example_vc_def example_extern_def example_agent_def K0_def
        lookup_def)

text \<open>
  C5. For a status object that the cache returns, \<open>deleteStatus\<close> with a nil teardown
  error makes one write, the deletion of the status object; with a teardown error it
  makes one write, an update of the status object with Ready false and the error's
  message, and no deletion. When the cache returns no status object nothing is written
  (and only a not-found answer is no error). Whatever the cache answers, a deletion is
  issued only with a nil teardown error.
\<close>

theorem deleteStatus_deletes_only_after_clean_teardown:
  "(case vsCache_Get h (statusName h (vc_Name vc)) of
      Inr vs \<Rightarrow>
        fst (deleteStatus h vc None) = [VsDelete (statusName h (vc_Name vc))]
        \<and> fst (deleteStatus h vc (Some teardownErr)) =
            [VsUpdate (vs\<lparr>vs_Ready := Some \<lparr>Status = ''False'', Message = Error teardownErr\<rparr>\<rparr>)]
    | Inl err \<Rightarrow>
        fst (deleteStatus h vc e) = []
        \<and> (snd (deleteStatus h vc e) = None \<longleftrightarrow> IsNotFound err))
   \<and> (\<forall>name. VsDelete name \<in> set (fst (deleteStatus h vc e)) \<longrightarrow> e = None)"
  by (auto simp: deleteStatus_def Let_def Ready_Message_def Ready_SetStatusBool_def
        find_or_create_def split: option.splits sum.splits)

theorem deleteStatus_deletes_only_after_clean_teardown_witness:
  "fst (deleteStatus (example_agent None (Some (example_vs ''a'' ''node1'' True)))
          (example_vc ''a'' 0) None)
     = [VsDelete (statusName (example_agent None (Some (example_vs ''a'' ''node1'' True))) ''a'')]
   \<and> fst (deleteStatus (example_agent None (Some (example_vs ''a'' ''node1'' True)))
          (example_vc ''a'' 0) (Some (Failure ''device or resource busy'')))
     = [VsUpdate ((example_vs ''a'' ''node1'' True)
          \<lparr>vs_Ready := Some \<lparr>Status = ''False'', Message = ''device or resource busy''\<rparr>\<rparr>)]"
  using deleteStatus_deletes_only_after_clean_teardown
          [where h = "example_agent None (Some (example_vs ''a'' ''node1'' True))"
             and vc = "example_vc ''a'' 0"
             and teardownErr = "Failure ''device or resource busy''"]
  by (simp add: example_agent_def example_vc_def)

text \<open>
  C4, as stated, fails. The node's pointer label names configuration object x, and its
  availability label for net1 is "true". Removing configuration object y of the same
  cluster network deletes both labels.
\<close>

theorem removeNodeLabel_other_owner_counterexample:
  "lookup (Some [''network.harvesterhci.io/net1'' \<mapsto> ''true'', KeyVlanConfigLabel K0 \<mapsto> ''x''])
      (KeyVlanConfigLabel K0) = ''x''
   \<and> ''x'' \<noteq> vc_Name (example_vc ''y'' 0)
   \<and> removeNodeLabel K0
        (example_agent (Some [''network.harvesterhci.io/net1'' \<mapsto> ''true'',
                              KeyVlanConfigLabel K0 \<mapsto> ''x'']) None)
        (example_vc ''y'' 0)
     = ([NodeUpdate \<lparr>node_Name = ''node1'', node_Labels = Some Map.empty\<rparr>], None)"
  by (simp add: removeNodeLabel_def example_agent_def example_vc_def K0_def lookup_def
        delete_key_def Let_def)

text \<open>
  C4, amended. \<open>removeNodeLabel\<close> writes to the node if and only if the node has labels
  and either the availability label of this object's cluster network is "true" or the
  pointer label names this configuration object; the write deletes both labels. When
  the pointer label names another configuration object and that availability label is
  not "true", nothing is written.
\<close>

theorem removeNodeLabel_writes_iff:
  "key = GroupName K @ ''/'' @ vc_ClusterNetwork vc \<Longrightarrow>
     (case nodeCache_Get h (nodeName h) of
        Inl err \<Rightarrow> removeNodeLabel K h vc = ([], Some err)
      | Inr node \<Rightarrow>
          (fst (removeNodeLabel K h vc) \<noteq> [] \<longleftrightarrow>
             node_Labels node \<noteq> None
             \<and> (lookup (node_Labels node) key = ValueTrue K
                  \<or> lookup (node_Labels node) (KeyVlanConfigLabel K) = vc_Name vc))
          \<and> (fst (removeNodeLabel K h vc) \<noteq> [] \<longrightarrow>
                fst (removeNodeLabel K h vc) =
                  [NodeUpdate (node\<lparr>node_Labels :=
                     delete_key (delete_key (node_Labels node) key) (KeyVlanConfigLabel K)\<rparr>)])
          \<and> (lookup (node_Labels node) (KeyVlanConfigLabel K) \<noteq> vc_Name vc
               \<and> lookup (node_Labels node) key \<noteq> ValueTrue K
               \<longrightarrow> removeNodeLabel K h vc = ([], None)))"
  by (auto simp: removeNodeLabel_def Let_def split: option.splits sum.splits)

theorem removeNodeLabel_writes_iff_witness:
  "removeNodeLabel K0
     (example_agent (Some [''network.harvesterhci.io/net2'' \<mapsto> ''true'',
                           KeyVlanConfigLabel K0 \<mapsto> ''x'']) None)
     (example_vc ''y'' 0) = ([], None)
   \<and> fst (removeNodeLabel K0
     (example_agent (Some [''network.harvesterhci.io/net1'' \<mapsto> ''true'',
                           KeyVlanConfigLabel K0 \<mapsto> ''y'']) None)
     (example_vc ''y'' 0)) = [NodeUpdate \<lparr>node_Name = ''node1'', node_Labels = Some Map.empty\<rparr>]"
  using removeNodeLabel_writes_iff
          [where h = "example_agent (Some [''network.harvesterhci.io/net2'' \<mapsto> ''true'',
                                           KeyVlanConfigLabel K0 \<mapsto> ''x'']) None"
             and K = K0 and vc = "example_vc ''y'' 0", OF refl]
        removeNodeLabel_writes_iff
          [where h = "example_agent (Some [''network.harvesterhci.io/net1'' \<mapsto> ''true'',
                                           KeyVlanConfigLabel K0 \<mapsto> ''y'']) None"
             and K = K0 and vc = "example_vc ''y'' 0", OF refl]
  by (simp add: example_agent_def example_vc_def K0_def lookup_def delete_key_def)

end
